theory Spec2Isabelle
  imports Complex_Main "HOL-Library.Sublist"
begin

section \<open>Python values\<close>

text \<open>
  The gateway handles decoded JSON: Python's \<open>None\<close>, \<open>bool\<close>, \<open>int\<close>, \<open>float\<close>,
  \<open>str\<close>, \<open>list\<close> and \<open>dict\<close> with string keys. Floating point numbers are kept
  abstract (the type parameter \<open>'f\<close>); a dict is an association list in insertion
  order, looked up with \<open>map_of\<close>. Strings are byte lists, non-ASCII text in UTF-8.
\<close>

datatype 'f pyval =
    PNone
  | PBool bool
  | PInt int
  | PFloat 'f
  | PStr string
  | PList "'f pyval list"
  | PDict "(string \<times> 'f pyval) list"

text \<open>
  The exceptions that occur. \<open>HTTPException\<close> carries the status code and the detail;
  \<open>RequestException\<close> is the base class of everything the HTTP client raises.
\<close>

datatype exn =
    TypeError
  | ValueError
  | OverflowError
  | AttributeError
  | KeyError
  | IndexError
  | RuntimeError string
  | RequestException string
  | HTTPException nat string

text \<open>
  Operations of the Python runtime that the program calls and that are not code of the
  program: conversion to float (\<open>None\<close> where \<open>float\<close> raises), the test of a float
  against zero, \<open>repr\<close> of floats and of strings, \<open>format(x, '.nf')\<close> and
  \<open>str.strip\<close>.
\<close>

record 'f builtins =
  float_of_str :: "string \<Rightarrow> 'f option"
  float_of_int :: "int \<Rightarrow> 'f option"
  float_is_zero :: "'f \<Rightarrow> bool"
  float_repr :: "'f \<Rightarrow> string"
  float_fmt :: "nat \<Rightarrow> 'f \<Rightarrow> string"
  repr_str :: "string \<Rightarrow> string"
  str_strip :: "string \<Rightarrow> string"

definition bind_e :: "exn + 'a \<Rightarrow> ('a \<Rightarrow> exn + 'b) \<Rightarrow> exn + 'b" where
  "bind_e m f = (case m of Inl e \<Rightarrow> Inl e | Inr v \<Rightarrow> f v)"

subsection \<open>Decimal rendering of integers\<close>

definition digit_char :: "nat \<Rightarrow> char" where
  "digit_char n = ''0123456789'' ! n"

function digits :: "nat \<Rightarrow> string" where
  "digits n = (if n < 10 then [digit_char n] else digits (n div 10) @ [digit_char (n mod 10)])"
  by pat_completeness auto
termination
  by (relation "measure id") auto

definition str_int :: "int \<Rightarrow> string" where
  "str_int i = (if i < 0 then CHR ''-'' # digits (nat (- i)) else digits (nat i))"

subsection \<open>\<open>str\<close>, \<open>repr\<close>, truth value, \<open>dict.get\<close>\<close>

fun join :: "string \<Rightarrow> string list \<Rightarrow> string" where
  "join sep [] = []"
| "join sep [x] = x"
| "join sep (x # y # ys) = x @ sep @ join sep (y # ys)"

fun py_repr :: "'f builtins \<Rightarrow> 'f pyval \<Rightarrow> string" where
  "py_repr B PNone = ''None''"
| "py_repr B (PBool b) = (if b then ''True'' else ''False'')"
| "py_repr B (PInt i) = str_int i"
| "py_repr B (PFloat x) = float_repr B x"
| "py_repr B (PStr s) = repr_str B s"
| "py_repr B (PList xs) = ''['' @ join '', '' (map (py_repr B) xs) @ '']''"
| "py_repr B (PDict kvs) =
     ''{'' @ join '', '' (map (\<lambda>kv. repr_str B (fst kv) @ '': '' @ py_repr B (snd kv)) kvs) @ ''}''"

text \<open>\<open>str(x)\<close> is \<open>repr(x)\<close> except on a string, which is itself.\<close>

definition py_str :: "'f builtins \<Rightarrow> 'f pyval \<Rightarrow> string" where
  "py_str B x = (case x of PStr s \<Rightarrow> s | _ \<Rightarrow> py_repr B x)"

fun truthy :: "'f builtins \<Rightarrow> 'f pyval \<Rightarrow> bool" where
  "truthy B PNone = False"
| "truthy B (PBool b) = b"
| "truthy B (PInt i) = (i \<noteq> 0)"
| "truthy B (PFloat x) = (\<not> float_is_zero B x)"
| "truthy B (PStr s) = (s \<noteq> [])"
| "truthy B (PList xs) = (xs \<noteq> [])"
| "truthy B (PDict kvs) = (kvs \<noteq> [])"

definition dict_get :: "(string \<times> 'f pyval) list \<Rightarrow> string \<Rightarrow> 'f pyval" where
  "dict_get kvs k = (case map_of kvs k of None \<Rightarrow> PNone | Some v \<Rightarrow> v)"

text \<open>\<open>x.get(k)\<close>: only a dict has the method.\<close>

definition py_get :: "'f pyval \<Rightarrow> string \<Rightarrow> exn + 'f pyval" where
  "py_get x k = (case x of PDict kvs \<Rightarrow> Inr (dict_get kvs k) | _ \<Rightarrow> Inl AttributeError)"

text \<open>\<open>float(x)\<close>.\<close>

fun py_float :: "'f builtins \<Rightarrow> 'f pyval \<Rightarrow> exn + 'f" where
  "py_float B PNone = Inl TypeError"
| "py_float B (PBool b) =
     (case float_of_int B (if b then 1 else 0) of None \<Rightarrow> Inl OverflowError | Some x \<Rightarrow> Inr x)"
| "py_float B (PInt i) =
     (case float_of_int B i of None \<Rightarrow> Inl OverflowError | Some x \<Rightarrow> Inr x)"
| "py_float B (PFloat x) = Inr x"
| "py_float B (PStr s) =
     (case float_of_str B s of None \<Rightarrow> Inl ValueError | Some x \<Rightarrow> Inr x)"
| "py_float B (PList xs) = Inl TypeError"
| "py_float B (PDict kvs) = Inl TypeError"

section \<open>The normalizer\<close>

text \<open>\<open>to_float\<close> of \<open>_normalize_maas\<close>: any exception of \<open>float\<close> becomes \<open>None\<close>.\<close>

definition to_float :: "'f builtins \<Rightarrow> 'f pyval \<Rightarrow> 'f pyval" where
  "to_float B x = (case py_float B x of Inl e \<Rightarrow> PNone | Inr v \<Rightarrow> PFloat v)"

definition normalize_maas :: "'f builtins \<Rightarrow> 'f pyval \<Rightarrow> exn + 'f pyval" where
  "normalize_maas B d =
     bind_e (py_get d ''sol'') (\<lambda>sol.
     bind_e (py_get d ''terrestrial_date'') (\<lambda>earth_date.
     bind_e (py_get d ''season'') (\<lambda>season.
     bind_e (py_get d ''min_temp'') (\<lambda>min_temp.
     bind_e (py_get d ''max_temp'') (\<lambda>max_temp.
     bind_e (py_get d ''min_gts_temp'') (\<lambda>min_gts_temp.
     bind_e (py_get d ''max_gts_temp'') (\<lambda>max_gts_temp.
     bind_e (py_get d ''pressure'') (\<lambda>pressure.
     bind_e (py_get d ''pressure_string'') (\<lambda>pressure_string.
     bind_e (py_get d ''sunrise'') (\<lambda>sunrise.
     bind_e (py_get d ''sunset'') (\<lambda>sunset.
     bind_e (py_get d ''local_uv_irradiance_index'') (\<lambda>uv.
     bind_e (py_get d ''atmo_opacity'') (\<lambda>atmo_opacity.
       Inr (PDict
         [(''source'', PStr ''curiosity_rems_maas''),
          (''sol'', sol),
          (''earth_date'', earth_date),
          (''season'', season),
          (''temperature_c'', PDict
             [(''min'', to_float B min_temp),
              (''max'', to_float B max_temp),
              (''min_gts'', to_float B min_gts_temp),
              (''max_gts'', to_float B max_gts_temp)]),
          (''pressure_pa'', to_float B pressure),
          (''pressure_qual'', pressure_string),
          (''sunrise_local'', sunrise),
          (''sunset_local'', sunset),
          (''uv_index'', uv),
          (''atmo_opacity'', atmo_opacity)]))))))))))))))"

section \<open>The cache\<close>

text \<open>
  \<open>CACHE\<close> maps a key to a row \<open>{"t": stored_at, "v": value}\<close>; the row is a pair
  here. The clock reading of \<open>time.time()\<close> is an argument.
\<close>

type_synonym 'f cache = "string \<Rightarrow> (real \<times> 'f pyval) option"

definition TTL :: real where
  "TTL = 15 * 60"

text \<open>
  \<open>_get_cached\<close>: a row is a non-empty dict, so \<open>not row\<close> holds only of a missing
  key. Returns the value (\<open>None\<close> for absent) and the cache after the call.
\<close>

definition get_cached :: "real \<Rightarrow> string \<Rightarrow> 'f cache \<Rightarrow> 'f pyval \<times> 'f cache" where
  "get_cached now key C =
     (case C key of
        None \<Rightarrow> (PNone, C)
      | Some row \<Rightarrow>
          if now - fst row > TTL then (PNone, C(key := None))
          else (snd row, C))"

definition set_cached :: "real \<Rightarrow> string \<Rightarrow> 'f pyval \<Rightarrow> 'f cache \<Rightarrow> 'f cache" where
  "set_cached now key val C = C(key \<mapsto> (now, val))"

section \<open>The world outside\<close>

text \<open>
  \<open>requests_get url\<close> is the outcome of \<open>requests.get\<close>, \<open>raise_for_status\<close> and
  \<open>r.json()\<close> together: the decoded body or the exception raised.
  \<open>requests_post url key model prompt\<close> is the same for the POST of the chat payload
  (the model, the system and user messages, temperature 0.3) with the bearer key.
  \<open>getenv\<close> reads the environment.
\<close>

record 'f world =
  py :: "'f builtins"
  MAAS_BASE :: string
  requests_get :: "string \<Rightarrow> exn + 'f pyval"
  requests_post :: "string \<Rightarrow> string \<Rightarrow> string \<Rightarrow> string \<Rightarrow> exn + 'f pyval"
  getenv :: "string \<Rightarrow> string option"

text \<open>\<open>_fetch_maas\<close>: only a \<open>RequestException\<close> is caught and turned into a 502.\<close>

definition fetch_maas :: "'f world \<Rightarrow> string \<Rightarrow> exn + 'f pyval" where
  "fetch_maas W path =
     (case requests_get W (MAAS_BASE W @ path) of
        Inr body \<Rightarrow> Inr body
      | Inl (RequestException msg) \<Rightarrow> Inl (HTTPException 502 (''Upstream MAAS error: '' @ msg))
      | Inl e \<Rightarrow> Inl e)"

section \<open>The weather endpoints\<close>

text \<open>
  An endpoint takes the two clock readings it may make (in \<open>_get_cached\<close> and in
  \<open>_set_cached\<close>) and the cache, and returns its response or the exception that leaves
  it, with the cache after the call.
\<close>

definition latest_key :: string where
  "latest_key = ''latest''"

definition sol_key :: "int \<Rightarrow> string" where
  "sol_key sol = ''sol:'' @ str_int sol"

definition weather_latest ::
  "'f world \<Rightarrow> real \<Rightarrow> real \<Rightarrow> 'f cache \<Rightarrow> (exn + 'f pyval) \<times> 'f cache" where
  "weather_latest W t1 t2 C =
     (let key = latest_key;
          (cached, C1) = get_cached t1 key C
      in if truthy (py W) cached then (Inr cached, C1)
         else case fetch_maas W ''/'' of
                Inl e \<Rightarrow> (Inl e, C1)
              | Inr data \<Rightarrow>
                  (case normalize_maas (py W) data of
                     Inl e \<Rightarrow> (Inl e, C1)
                   | Inr out \<Rightarrow> (Inr out, set_cached t2 key out C1)))"

definition is_dict :: "'f pyval \<Rightarrow> bool" where
  "is_dict x = (case x of PDict kvs \<Rightarrow> True | _ \<Rightarrow> False)"

text \<open>The test \<open>not data or (isinstance(data, dict) and data.get("error"))\<close>.\<close>

definition no_data :: "'f builtins \<Rightarrow> 'f pyval \<Rightarrow> bool" where
  "no_data B data =
     (\<not> truthy B data \<or>
      (case data of PDict kvs \<Rightarrow> truthy B (dict_get kvs ''error'') | _ \<Rightarrow> False))"

definition weather_by_sol ::
  "'f world \<Rightarrow> real \<Rightarrow> real \<Rightarrow> int \<Rightarrow> 'f cache \<Rightarrow> (exn + 'f pyval) \<times> 'f cache" where
  "weather_by_sol W t1 t2 sol C =
     (let key = sol_key sol;
          (cached, C1) = get_cached t1 key C
      in if truthy (py W) cached then (Inr cached, C1)
         else case fetch_maas W (''/'' @ str_int sol) of
                Inl e \<Rightarrow> (Inl e, C1)
              | Inr data \<Rightarrow>
                  if no_data (py W) data
                  then (Inl (HTTPException 404 (''No data for sol '' @ str_int sol)), C1)
                  else (case normalize_maas (py W) data of
                          Inl e \<Rightarrow> (Inl e, C1)
                        | Inr out \<Rightarrow> (Inr out, set_cached t2 key out C1)))"

section \<open>The summary generator\<close>

definition em_dash :: string where
  "em_dash = [CHR 0xE2, CHR 0x80, CHR 0x94]"

definition en_dash :: string where
  "en_dash = [CHR 0xE2, CHR 0x80, CHR 0x93]"

definition deg :: string where
  "deg = [CHR 0xC2, CHR 0xB0]"

text \<open>
  \<open>format(x, '.nf')\<close>, as the f-strings \<open>{tmin:.1f}\<close> and \<open>{press:.0f}\<close> call it: defined
  on floats, and on ints and bools through their float; a string gives \<open>ValueError\<close>,
  anything else \<open>TypeError\<close>.
\<close>

fun py_format_f :: "'f builtins \<Rightarrow> nat \<Rightarrow> 'f pyval \<Rightarrow> exn + string" where
  "py_format_f B n (PFloat x) = Inr (float_fmt B n x)"
| "py_format_f B n (PInt i) =
     (case float_of_int B i of None \<Rightarrow> Inl OverflowError | Some x \<Rightarrow> Inr (float_fmt B n x))"
| "py_format_f B n (PBool b) =
     (case float_of_int B (if b then 1 else 0) of
        None \<Rightarrow> Inl OverflowError | Some x \<Rightarrow> Inr (float_fmt B n x))"
| "py_format_f B n (PStr s) = Inl ValueError"
| "py_format_f B n PNone = Inl TypeError"
| "py_format_f B n (PList xs) = Inl TypeError"
| "py_format_f B n (PDict kvs) = Inl TypeError"

text \<open>
  \<open>_format_brief\<close>. The list \<open>parts\<close> grows clause by clause as in the source; each
  \<open>d.get\<close> needs \<open>d\<close> to be a dict.
\<close>

definition format_brief :: "'f builtins \<Rightarrow> 'f pyval \<Rightarrow> exn + string" where
  "format_brief B d =
     (if \<not> truthy B d then Inr ''No data.''
      else
        bind_e (py_get d ''sol'') (\<lambda>sol.
        bind_e (py_get d ''earth_date'') (\<lambda>day.
        bind_e (py_get d ''temperature_c'') (\<lambda>tc.
        bind_e (Inr (if truthy B tc then tc else PDict [])) (\<lambda>t.
        bind_e (py_get t ''min'') (\<lambda>tmin.
        bind_e (py_get t ''max'') (\<lambda>tmax.
        bind_e (py_get d ''pressure_pa'') (\<lambda>press.
        bind_e (py_get d ''season'') (\<lambda>season.
        bind_e (py_get d ''uv_index'') (\<lambda>uv.
        bind_e (py_get d ''atmo_opacity'') (\<lambda>sky.
        bind_e (Inr [''Mars (Curiosity/REMS) '' @ em_dash @ '' Sol '' @ py_str B sol
                       @ '' ('' @ py_str B day @ '').'']) (\<lambda>parts.
        bind_e (if tmin \<noteq> PNone \<and> tmax \<noteq> PNone then
                  bind_e (py_format_f B 1 tmin) (\<lambda>lo.
                  bind_e (py_format_f B 1 tmax) (\<lambda>hi.
                    Inr (parts @ [''Temp: '' @ lo @ deg @ ''C to '' @ hi @ deg @ ''C.''])))
                else if tmin \<noteq> PNone \<or> tmax \<noteq> PNone then
                  Inr (parts @
                    [''Temp: min '' @ (if tmin \<noteq> PNone then py_str B tmin else ''?'') @ deg
                      @ ''C, max '' @ (if tmax \<noteq> PNone then py_str B tmax else ''?'') @ deg
                      @ ''C.''])
                else Inr parts) (\<lambda>parts.
        bind_e (if press \<noteq> PNone then
                  bind_e (py_format_f B 0 press) (\<lambda>p.
                    Inr (parts @ [''Pressure: '' @ p @ '' Pa.'']))
                else Inr parts) (\<lambda>parts.
        bind_e (Inr (if truthy B season
                     then parts @ [''Season: '' @ py_str B season @ ''.''] else parts)) (\<lambda>parts.
        bind_e (Inr (if truthy B sky
                     then parts @ [''Atmospheric opacity: '' @ py_str B sky @ ''.'']
                     else parts)) (\<lambda>parts.
        bind_e (Inr (if truthy B uv
                     then parts @ [''UV Index: '' @ py_str B uv @ ''.''] else parts)) (\<lambda>parts.
          Inr (join '' '' parts))))))))))))))))))"

text \<open>
  \<open>_prompt_from_weather\<close>: \<open>str(d)\<close> of a dict is one line (\<open>repr\<close> escapes line
  breaks), so \<open>dedent\<close> removes the four blanks before each line and \<open>strip\<close> the
  blank first and last lines.
\<close>

definition prompt_from_weather :: "'f builtins \<Rightarrow> 'f pyval \<Rightarrow> string" where
  "prompt_from_weather B d =
     ''You are a concise science reporter. Summarise the Curiosity/REMS weather for a general audience in 2''
       @ en_dash @ ''3 sentences.'' @ [CHR 0x0A]
     @ ''Include Sol number and Earth date; mention temperatures in '' @ deg
       @ ''C (range), pressure in Pa (if present), season and sky/opacity if present.'' @ [CHR 0x0A]
     @ ''Avoid speculation and do not invent numbers.'' @ [CHR 0x0A]
     @ ''Data (JSON):'' @ [CHR 0x0A]
     @ py_str B d"

text \<open>
  Subscription \<open>x[k]\<close> with a string key and \<open>x[0]\<close>. The first character of a string
  is its first byte here; the program subscripts the result with a string next, which
  raises \<open>TypeError\<close> on any string.
\<close>

definition py_item :: "'f pyval \<Rightarrow> string \<Rightarrow> exn + 'f pyval" where
  "py_item x k =
     (case x of
        PDict kvs \<Rightarrow> (case map_of kvs k of None \<Rightarrow> Inl KeyError | Some v \<Rightarrow> Inr v)
      | _ \<Rightarrow> Inl TypeError)"

definition py_item0 :: "'f pyval \<Rightarrow> exn + 'f pyval" where
  "py_item0 x =
     (case x of
        PList xs \<Rightarrow> (case xs of [] \<Rightarrow> Inl IndexError | y # ys \<Rightarrow> Inr y)
      | PStr s \<Rightarrow> (case s of [] \<Rightarrow> Inl IndexError | c # cs \<Rightarrow> Inr (PStr [c]))
      | PDict kvs \<Rightarrow> Inl KeyError
      | _ \<Rightarrow> Inl TypeError)"

definition py_strip :: "'f builtins \<Rightarrow> 'f pyval \<Rightarrow> exn + string" where
  "py_strip B x = (case x of PStr s \<Rightarrow> Inr (str_strip B s) | _ \<Rightarrow> Inl AttributeError)"

text \<open>\<open>data["choices"][0]["message"]["content"].strip()\<close>\<close>

definition llm_content :: "'f builtins \<Rightarrow> 'f pyval \<Rightarrow> exn + string" where
  "llm_content B data =
     bind_e (py_item data ''choices'') (\<lambda>choices.
     bind_e (py_item0 choices) (\<lambda>choice.
     bind_e (py_item choice ''message'') (\<lambda>message.
     bind_e (py_item message ''content'') (\<lambda>content.
       py_strip B content))))"

definition not_configured :: exn where
  "not_configured = RuntimeError ''LLM not configured (set LLM_API_URL, LLM_API_KEY, LLM_MODEL).''"

text \<open>
  \<open>_call_llm\<close>. The test \<open>not (api_url and api_key and model)\<close> holds when one of
  the three variables is unset or empty. An exception of the POST leaves the function;
  an exception while reading the content out of the body is caught and \<open>str(data)\<close>
  returned.
\<close>

definition call_llm :: "'f world \<Rightarrow> string \<Rightarrow> exn + string" where
  "call_llm W prompt =
     (case getenv W ''LLM_API_URL'' of
        None \<Rightarrow> Inl not_configured
      | Some api_url \<Rightarrow>
     (case getenv W ''LLM_API_KEY'' of
        None \<Rightarrow> Inl not_configured
      | Some api_key \<Rightarrow>
     (case getenv W ''LLM_MODEL'' of
        None \<Rightarrow> Inl not_configured
      | Some model \<Rightarrow>
          if \<not> (api_url \<noteq> [] \<and> api_key \<noteq> [] \<and> model \<noteq> []) then Inl not_configured
          else
            case requests_post W api_url api_key model prompt of
              Inl e \<Rightarrow> Inl e
            | Inr data \<Rightarrow>
                (case llm_content (py W) data of
                   Inr text \<Rightarrow> Inr text
                 | Inl e \<Rightarrow> Inr (py_str (py W) data)))))"

text \<open>
  The summary endpoints: the weather lookup comes first, outside the \<open>try\<close>; the LLM
  call is inside it, the formatter in its \<open>except Exception\<close>.
\<close>

definition ai_brief_latest ::
  "'f world \<Rightarrow> real \<Rightarrow> real \<Rightarrow> 'f cache \<Rightarrow> (exn + 'f pyval) \<times> 'f cache" where
  "ai_brief_latest W t1 t2 C =
     (case weather_latest W t1 t2 C of
        (Inl e, C1) \<Rightarrow> (Inl e, C1)
      | (Inr d, C1) \<Rightarrow>
          (case call_llm W (prompt_from_weather (py W) d) of
             Inr text \<Rightarrow> (Inr (PDict [(''mode'', PStr ''llm''), (''text'', PStr text)]), C1)
           | Inl e \<Rightarrow>
               (bind_e (format_brief (py W) d) (\<lambda>text.
                  Inr (PDict [(''mode'', PStr ''fallback''), (''text'', PStr text)])), C1)))"

definition ai_brief_by_sol ::
  "'f world \<Rightarrow> real \<Rightarrow> real \<Rightarrow> int \<Rightarrow> 'f cache \<Rightarrow> (exn + 'f pyval) \<times> 'f cache" where
  "ai_brief_by_sol W t1 t2 sol C =
     (case weather_by_sol W t1 t2 sol C of
        (Inl e, C1) \<Rightarrow> (Inl e, C1)
      | (Inr d, C1) \<Rightarrow>
          (case call_llm W (prompt_from_weather (py W) d) of
             Inr text \<Rightarrow> (Inr (PDict [(''mode'', PStr ''llm''), (''text'', PStr text)]), C1)
           | Inl e \<Rightarrow>
               (bind_e (format_brief (py W) d) (\<lambda>text.
                  Inr (PDict [(''mode'', PStr ''fallback''), (''text'', PStr text)])), C1)))"

section \<open>The record of the data model\<close>

text \<open>
  The WeatherRecord of the specification: the numeric fields are a float or null, the
  others whatever the upstream sent. \<open>record_dict\<close> is its JSON object.
\<close>

record 'f weather_record =
  wr_sol :: "'f pyval"
  wr_earth_date :: "'f pyval"
  wr_season :: "'f pyval"
  wr_min :: "'f option"
  wr_max :: "'f option"
  wr_min_gts :: "'f option"
  wr_max_gts :: "'f option"
  wr_pressure_pa :: "'f option"
  wr_pressure_qual :: "'f pyval"
  wr_sunrise_local :: "'f pyval"
  wr_sunset_local :: "'f pyval"
  wr_uv_index :: "'f pyval"
  wr_atmo_opacity :: "'f pyval"

definition opt_float :: "'f option \<Rightarrow> 'f pyval" where
  "opt_float x = (case x of None \<Rightarrow> PNone | Some v \<Rightarrow> PFloat v)"

definition record_dict :: "'f weather_record \<Rightarrow> 'f pyval" where
  "record_dict r =
     PDict
       [(''source'', PStr ''curiosity_rems_maas''),
        (''sol'', wr_sol r),
        (''earth_date'', wr_earth_date r),
        (''season'', wr_season r),
        (''temperature_c'', PDict
           [(''min'', opt_float (wr_min r)),
            (''max'', opt_float (wr_max r)),
            (''min_gts'', opt_float (wr_min_gts r)),
            (''max_gts'', opt_float (wr_max_gts r))]),
        (''pressure_pa'', opt_float (wr_pressure_pa r)),
        (''pressure_qual'', wr_pressure_qual r),
        (''sunrise_local'', wr_sunrise_local r),
        (''sunset_local'', wr_sunset_local r),
        (''uv_index'', wr_uv_index r),
        (''atmo_opacity'', wr_atmo_opacity r)]"

text \<open>The record \<open>_normalize_maas\<close> builds from a raw object, field by field.\<close>

definition float_field :: "'f builtins \<Rightarrow> (string \<times> 'f pyval) list \<Rightarrow> string \<Rightarrow> 'f option" where
  "float_field B raw k = (case py_float B (dict_get raw k) of Inl e \<Rightarrow> None | Inr x \<Rightarrow> Some x)"

definition record_of :: "'f builtins \<Rightarrow> (string \<times> 'f pyval) list \<Rightarrow> 'f weather_record" where
  "record_of B raw =
     \<lparr> wr_sol = dict_get raw ''sol'',
       wr_earth_date = dict_get raw ''terrestrial_date'',
       wr_season = dict_get raw ''season'',
       wr_min = float_field B raw ''min_temp'',
       wr_max = float_field B raw ''max_temp'',
       wr_min_gts = float_field B raw ''min_gts_temp'',
       wr_max_gts = float_field B raw ''max_gts_temp'',
       wr_pressure_pa = float_field B raw ''pressure'',
       wr_pressure_qual = dict_get raw ''pressure_string'',
       wr_sunrise_local = dict_get raw ''sunrise'',
       wr_sunset_local = dict_get raw ''sunset'',
       wr_uv_index = dict_get raw ''local_uv_irradiance_index'',
       wr_atmo_opacity = dict_get raw ''atmo_opacity'' \<rparr>"

section \<open>The deterministic summary, as the specification words it\<close>

text \<open>
  The clauses of the specification's formatter over a WeatherRecord, in its order: the
  leading clause always; the temperature clause in its range form when both bounds are
  present and in its \<open>?\<close> form when one is; the pressure clause when the pressure is
  present; the season, opacity and UV clauses when the field is truthy. The text is
  the clauses with one blank between neighbours.
\<close>

definition spec_lead :: "'f builtins \<Rightarrow> 'f weather_record \<Rightarrow> string" where
  "spec_lead B r =
     ''Mars (Curiosity/REMS) '' @ em_dash @ '' Sol '' @ py_str B (wr_sol r)
       @ '' ('' @ py_str B (wr_earth_date r) @ '').''"

definition spec_temp :: "'f builtins \<Rightarrow> 'f weather_record \<Rightarrow> string list" where
  "spec_temp B r =
     (case (wr_min r, wr_max r) of
        (Some lo, Some hi) \<Rightarrow>
          [''Temp: '' @ float_fmt B 1 lo @ deg @ ''C to '' @ float_fmt B 1 hi @ deg @ ''C.'']
      | (Some lo, None) \<Rightarrow>
          [''Temp: min '' @ float_repr B lo @ deg @ ''C, max ?'' @ deg @ ''C.'']
      | (None, Some hi) \<Rightarrow>
          [''Temp: min ?'' @ deg @ ''C, max '' @ float_repr B hi @ deg @ ''C.'']
      | (None, None) \<Rightarrow> [])"

definition spec_pressure :: "'f builtins \<Rightarrow> 'f weather_record \<Rightarrow> string list" where
  "spec_pressure B r =
     (case wr_pressure_pa r of
        None \<Rightarrow> []
      | Some p \<Rightarrow> [''Pressure: '' @ float_fmt B 0 p @ '' Pa.''])"

definition spec_season :: "'f builtins \<Rightarrow> 'f weather_record \<Rightarrow> string list" where
  "spec_season B r =
     (if truthy B (wr_season r) then [''Season: '' @ py_str B (wr_season r) @ ''.''] else [])"

definition spec_opacity :: "'f builtins \<Rightarrow> 'f weather_record \<Rightarrow> string list" where
  "spec_opacity B r =
     (if truthy B (wr_atmo_opacity r)
      then [''Atmospheric opacity: '' @ py_str B (wr_atmo_opacity r) @ ''.''] else [])"

definition spec_uv :: "'f builtins \<Rightarrow> 'f weather_record \<Rightarrow> string list" where
  "spec_uv B r =
     (if truthy B (wr_uv_index r) then [''UV Index: '' @ py_str B (wr_uv_index r) @ ''.''] else [])"

definition spec_clauses :: "'f builtins \<Rightarrow> 'f weather_record \<Rightarrow> string list" where
  "spec_clauses B r =
     spec_temp B r @ spec_pressure B r @ spec_season B r @ spec_opacity B r @ spec_uv B r"

definition spec_brief :: "'f builtins \<Rightarrow> 'f weather_record \<Rightarrow> string" where
  "spec_brief B r = spec_lead B r @ concat (map (\<lambda>c. CHR '' '' # c) (spec_clauses B r))"

text \<open>The texts that the summary takes over from the record.\<close>

definition brief_inserts :: "'f builtins \<Rightarrow> 'f weather_record \<Rightarrow> string list" where
  "brief_inserts B r =
     [py_str B (wr_sol r), py_str B (wr_earth_date r)]
     @ (case wr_min r of None \<Rightarrow> [] | Some lo \<Rightarrow> [float_fmt B 1 lo, float_repr B lo])
     @ (case wr_max r of None \<Rightarrow> [] | Some hi \<Rightarrow> [float_fmt B 1 hi, float_repr B hi])
     @ [py_str B (wr_season r), py_str B (wr_atmo_opacity r), py_str B (wr_uv_index r)]"

section \<open>Invariant of the cache\<close>

text \<open>Every value the endpoints store is a WeatherRecord's object.\<close>

definition is_record :: "'f pyval \<Rightarrow> bool" where
  "is_record d = (\<exists>r. d = record_dict r)"

definition cache_ok :: "'f cache \<Rightarrow> bool" where
  "cache_ok C = (\<forall>k row. C k = Some row \<longrightarrow> is_record (snd row))"

section \<open>A sample runtime for concrete evaluation\<close>

text \<open>
  Floats that are integers, written with a sign and decimal digits; \<open>repr\<close> of a string
  in single quotes; \<open>strip\<close> of blanks.
\<close>

definition digit_val :: "char \<Rightarrow> nat option" where
  "digit_val c =
     map_of [(CHR ''0'', 0), (CHR ''1'', 1), (CHR ''2'', 2), (CHR ''3'', 3), (CHR ''4'', 4),
             (CHR ''5'', 5), (CHR ''6'', 6), (CHR ''7'', 7), (CHR ''8'', 8), (CHR ''9'', 9)] c"

fun parse_nat :: "nat \<Rightarrow> string \<Rightarrow> nat option" where
  "parse_nat acc [] = Some acc"
| "parse_nat acc (c # cs) =
     (case digit_val c of None \<Rightarrow> None | Some d \<Rightarrow> parse_nat (10 * acc + d) cs)"

definition sample_float_of_str :: "string \<Rightarrow> int option" where
  "sample_float_of_str s =
     (case s of
        [] \<Rightarrow> None
      | c # cs \<Rightarrow>
          if c = CHR ''-''
          then (if cs = [] then None else map_option (\<lambda>n. - int n) (parse_nat 0 cs))
          else map_option int (parse_nat 0 s))"

definition sample_builtins :: "int builtins" where
  "sample_builtins =
     \<lparr> float_of_str = sample_float_of_str,
       float_of_int = Some,
       float_is_zero = (\<lambda>x. x = 0),
       float_repr = (\<lambda>x. str_int x @ ''.0''),
       float_fmt = (\<lambda>n x. str_int x @ (if n = 0 then [] else CHR ''.'' # replicate n (CHR ''0''))),
       repr_str = (\<lambda>s. [CHR 0x27] @ s @ [CHR 0x27]),
       str_strip = (\<lambda>s. rev (dropWhile (\<lambda>c. c = CHR '' '') (rev (dropWhile (\<lambda>c. c = CHR '' '') s)))) \<rparr>"


section \<open>The numeric fields\<close>

text \<open>
  The five fields that go through \<open>to_float\<close>: the key of the raw object and the
  place of the result in the output. \<open>lookup_path\<close> reads a place.
\<close>

definition numeric_fields :: "(string \<times> string list) list" where
  "numeric_fields =
     [(''min_temp'', [''temperature_c'', ''min'']),
      (''max_temp'', [''temperature_c'', ''max'']),
      (''min_gts_temp'', [''temperature_c'', ''min_gts'']),
      (''max_gts_temp'', [''temperature_c'', ''max_gts'']),
      (''pressure'', [''pressure_pa''])]"

fun lookup_path :: "'f pyval \<Rightarrow> string list \<Rightarrow> 'f pyval" where
  "lookup_path x [] = x"
| "lookup_path x (k # ks) =
     (case x of PDict kvs \<Rightarrow> lookup_path (dict_get kvs k) ks | _ \<Rightarrow> PNone)"

definition null_record :: "'f weather_record" where
  "null_record =
     \<lparr> wr_sol = PNone, wr_earth_date = PNone, wr_season = PNone,
       wr_min = None, wr_max = None, wr_min_gts = None, wr_max_gts = None,
       wr_pressure_pa = None, wr_pressure_qual = PNone,
       wr_sunrise_local = PNone, wr_sunset_local = PNone,
       wr_uv_index = PNone, wr_atmo_opacity = PNone \<rparr>"

section \<open>Stale entries\<close>

text \<open>An entry is stale at a time when it is older than the time to live.\<close>

definition stale :: "real \<Rightarrow> (real \<times> 'f pyval) option \<Rightarrow> bool" where
  "stale now entry = (case entry of None \<Rightarrow> False | Some row \<Rightarrow> now - fst row > TTL)"

section \<open>Sample upstreams, LLM services and environments\<close>









section \<open>Basic facts\<close>

lemma bind_e_Inr [simp]: "bind_e (Inr v) f = f v"
  by (simp add: bind_e_def)

lemma bind_e_Inl [simp]: "bind_e (Inl e) f = Inl e"
  by (simp add: bind_e_def)

lemma py_get_dict [simp]: "py_get (PDict kvs) k = Inr (dict_get kvs k)"
  by (simp add: py_get_def)

lemma to_float_opt: "to_float B (dict_get raw k) = opt_float (float_field B raw k)"
  by (simp add: to_float_def opt_float_def float_field_def split: sum.splits)

lemma normalize_maas_record: "normalize_maas B (PDict raw) = Inr (record_dict (record_of B raw))"
  by (simp add: normalize_maas_def record_dict_def record_of_def to_float_opt)

section \<open>The cache: freshness\<close>



section \<open>The normalizer: shape of the output\<close>

text \<open>
  Claim C4. For every dict the output of \<open>_normalize_maas\<close> is the object of a
  WeatherRecord: exactly the keys source, sol, earth_date, season, temperature_c,
  pressure_pa, pressure_qual, sunrise_local, sunset_local, uv_index and atmo_opacity,
  with temperature_c an object of exactly min, max, min_gts and max_gts, and with
  source the constant tag, whatever fields the input has.
\<close>

theorem normalize_maas_schema:
  "normalize_maas B (PDict raw) = Inr (record_dict (record_of B raw)) \<and>
   (\<exists>fields temps.
      record_dict (record_of B raw) = PDict fields \<and>
      map fst fields =
        [''source'', ''sol'', ''earth_date'', ''season'', ''temperature_c'', ''pressure_pa'',
         ''pressure_qual'', ''sunrise_local'', ''sunset_local'', ''uv_index'', ''atmo_opacity''] \<and>
      dict_get fields ''source'' = PStr ''curiosity_rems_maas'' \<and>
      dict_get fields ''temperature_c'' = PDict temps \<and>
      map fst temps = [''min'', ''max'', ''min_gts'', ''max_gts''])"
  by (simp add: normalize_maas_record) (simp add: record_dict_def dict_get_def)

section \<open>The normalizer: no exception\<close>

text \<open>
  \<open>float\<close> raises on the value of a missing key, which is \<open>None\<close>. It also raises on
  null, on a list or an object, and on a string it cannot read; it accepts a bool, as
  Python does.
\<close>

lemma py_float_missing: "map_of raw k = None \<Longrightarrow> py_float B (dict_get raw k) = Inl TypeError"
  by (simp add: dict_get_def)

text \<open>
  Claim C3. For every dict, \<open>_normalize_maas\<close> returns and does not raise; each of
  the numeric fields min_temp, max_temp, min_gts_temp, max_gts_temp and pressure that is
  missing, or on whose value \<open>float\<close> raises, is null in the output; and the output
  for the empty dict is the record whose fields other than the source are all null.
\<close>

theorem normalize_maas_never_raises:
  "\<exists>out. normalize_maas B (PDict raw) = Inr out \<and>
     (\<forall>(k, p) \<in> set numeric_fields.
        (map_of raw k = None \<or> (\<exists>e. py_float B (dict_get raw k) = Inl e))
          \<longrightarrow> lookup_path out p = PNone) \<and>
     normalize_maas B (PDict []) = Inr (record_dict null_record)"
proof -
  have a: "float_field B raw k = None"
    if "map_of raw k = None \<or> (\<exists>e. py_float B (dict_get raw k) = Inl e)" for k
    using that by (auto simp: float_field_def py_float_missing)
  have b: "record_of B [] = null_record"
    by (simp add: record_of_def null_record_def float_field_def dict_get_def)
  have c: "\<forall>(k, p) \<in> set numeric_fields.
        (map_of raw k = None \<or> (\<exists>e. py_float B (dict_get raw k) = Inl e))
          \<longrightarrow> lookup_path (record_dict (record_of B raw)) p = PNone"
    using a by (simp add: numeric_fields_def record_dict_def record_of_def dict_get_def opt_float_def)
  show ?thesis
    using b c normalize_maas_record [of B raw] normalize_maas_record [of B "[]"] by simp
qed


theorem normalize_maas_never_raises_witness:
  "(''min_temp'', [''temperature_c'', ''min'']) \<in> set numeric_fields \<and>
   py_float sample_builtins (dict_get [(''min_temp'', PStr ''abc''), (''max_temp'', PStr ''-5'')] ''min_temp'')
     = Inl ValueError \<and>
   (\<exists>out. normalize_maas sample_builtins (PDict [(''min_temp'', PStr ''abc''), (''max_temp'', PStr ''-5'')]) = Inr out \<and>
      lookup_path out [''temperature_c'', ''min''] = PNone)"
proof -
  let ?raw = "[(''min_temp'', PStr ''abc''), (''max_temp'', PStr ''-5'')] :: (string \<times> int pyval) list"
  have m: "(''min_temp'', [''temperature_c'', ''min'']) \<in> set numeric_fields"
    by (simp add: numeric_fields_def)
  have f: "py_float sample_builtins (dict_get ?raw ''min_temp'') = Inl ValueError"
    by (simp add: dict_get_def sample_builtins_def sample_float_of_str_def digit_val_def)
  from normalize_maas_never_raises [of sample_builtins ?raw]
  obtain out where o: "normalize_maas sample_builtins (PDict ?raw) = Inr out"
    and h: "\<forall>(k, p) \<in> set numeric_fields.
        (map_of ?raw k = None \<or> (\<exists>e. py_float sample_builtins (dict_get ?raw k) = Inl e))
          \<longrightarrow> lookup_path out p = PNone"
    by blast
  from h m f have "lookup_path out [''temperature_c'', ''min''] = PNone"
    by blast
  with m f o show ?thesis by blast
qed

section \<open>Cache keys\<close>






declare digits.simps [simp del]






section \<open>The weather endpoints\<close>




lemma weather_latest_miss:
  "\<not> truthy (py W) (fst (get_cached t1 latest_key C)) \<Longrightarrow>
   weather_latest W t1 t2 C =
     (case fetch_maas W ''/'' of
        Inl e \<Rightarrow> (Inl e, snd (get_cached t1 latest_key C))
      | Inr data \<Rightarrow>
          (case normalize_maas (py W) data of
                  Inl e \<Rightarrow> (Inl e, snd (get_cached t1 latest_key C))
                | Inr out \<Rightarrow> (Inr out, set_cached t2 latest_key out (snd (get_cached t1 latest_key C)))))"
  by (simp add: weather_latest_def Let_def case_prod_beta)

lemma weather_latest_hit:
  "truthy (py W) (fst (get_cached t1 latest_key C)) \<Longrightarrow>
   weather_latest W t1 t2 C = (Inr (fst (get_cached t1 latest_key C)), snd (get_cached t1 latest_key C))"
  by (simp add: weather_latest_def Let_def case_prod_beta)

lemma weather_by_sol_hit:
  "truthy (py W) (fst (get_cached t1 (sol_key sol) C)) \<Longrightarrow>
   weather_by_sol W t1 t2 sol C =
     (Inr (fst (get_cached t1 (sol_key sol) C)), snd (get_cached t1 (sol_key sol) C))"
  by (simp add: weather_by_sol_def Let_def case_prod_beta)






end
